theory Spec2Isabelle
  imports Main "HOL-Library.Word" "HOL-Library.AList" "HOL-Library.List_Lexorder" "HOL-Library.Char_ord"
begin

section \<open>Shared vocabulary: entries, errors, contexts, machine integers\<close>

text \<open>
  An entry is an opaque byte sequence (\<open>[]byte\<close>); a \<open>char\<close> is one byte.
  A \<open>time.Time\<close> is its number of nanoseconds since the epoch, a \<open>time.Duration\<close> is a
  signed 64-bit count of nanoseconds. Go's \<open>int\<close> is taken as 64 bits wide; every \<open>int64\<close>
  computation of the source is written with \<open>wrap64\<close>, which is two's-complement wrap-around.
\<close>

type_synonym bytes = string

text \<open>
  The four sentinel errors of the two sinks, the two errors of a context,
  \<open>os.ErrInvalid\<close>, and the errors of the operating system: a missing file and any
  other, by its number.
\<close>

datatype error =
    ErrRotationClosed
  | ErrRotationNoPath
  | ErrQueueFull
  | ErrBatchClosed
  | Canceled
  | DeadlineExceeded
  | ErrInvalid
  | ENOENT
  | OSError nat

text \<open>
  A \<open>context.Context\<close> at the moment of a call: live, cancelled, or past its deadline.
  \<open>ctx_Err\<close> is \<open>ctx.Err()\<close>, which is nil exactly while the context is live.
\<close>

datatype ctx = Live | CtxCanceled | CtxExpired

fun ctx_Err :: "ctx \<Rightarrow> error option" where
  "ctx_Err Live = None"
| "ctx_Err CtxCanceled = Some Canceled"
| "ctx_Err CtxExpired = Some DeadlineExceeded"

definition maxInt64 :: int where
  "maxInt64 = 9223372036854775807"

definition minInt64 :: int where
  "minInt64 = - 9223372036854775808"

definition wrap64 :: "int \<Rightarrow> int" where
  "wrap64 x = (x + 9223372036854775808) mod 18446744073709551616 - 9223372036854775808"

text \<open>\<open>time.Time.Sub\<close> saturates at the largest and smallest \<open>Duration\<close>.\<close>

definition time_Sub :: "int \<Rightarrow> int \<Rightarrow> int" where
  "time_Sub t u =
     (let d = t - u
      in if d > maxInt64 then maxInt64 else if d < minInt64 then minInt64 else d)"

definition Hour :: int where
  "Hour = 3600000000000"

section \<open>The file system the sink talks to\<close>

text \<open>
  The operating system is a value of type \<open>world\<close>: the files on disk (an association list
  from path to node), the clock read by \<open>time.Now\<close>, a table \<open>fault\<close> that says which
  system call fails and with which error, the number \<open>short\<close> of bytes a failing write still
  accepts, and the list \<open>trace\<close> of every system call made so far. Every operation, also a
  read-only one, appends itself to \<open>trace\<close>; an operation of the sink that leaves the
  world unchanged has therefore made no system call at all.

  Two library functions are parameters of the world: \<open>fmt_time\<close> stands for
  \<open>t.UTC().Format("20060102-150405")\<close> and \<open>gzip_bytes\<close> for the gzip encoder.
  An open \<open>*os.File\<close> is represented by the path it was opened at: the sink closes its
  handle before it renames the file, so the handle and the path never part.
  Permission modes are stored as requested, before the process umask.
\<close>

datatype oflag = O_RDONLY | O_WRONLY | O_CREATE | O_APPEND | O_TRUNC

datatype syscall =
    SysMkdirAll string "32 word"
  | SysOpenFile string "oflag list" "32 word"
  | SysFstat string
  | SysStat string
  | SysRename string string
  | SysWrite string
  | SysSync string
  | SysClose string
  | SysReadDir string
  | SysLstat string
  | SysRemove string
  | SysGzip string string

record fnode =
  content :: bytes
  modTime :: int
  perm :: "32 word"

record world =
  files :: "(string \<times> fnode) list"
  clock :: int
  fault :: "syscall \<Rightarrow> error option"
  short :: nat
  fmt_time :: "int \<Rightarrow> string"
  gzip_bytes :: "bytes \<Rightarrow> bytes"
  trace :: "syscall list"

definition sys :: "world \<Rightarrow> syscall \<Rightarrow> world" where
  "sys w c = w\<lparr>trace := trace w @ [c]\<rparr>"

definition os_MkdirAll :: "world \<Rightarrow> string \<Rightarrow> 32 word \<Rightarrow> error option \<times> world" where
  "os_MkdirAll w dir m = (fault w (SysMkdirAll dir m), sys w (SysMkdirAll dir m))"

definition os_OpenFile ::
  "world \<Rightarrow> string \<Rightarrow> oflag list \<Rightarrow> 32 word \<Rightarrow> (error + string) \<times> world" where
  "os_OpenFile w p flags m =
     (let c = SysOpenFile p flags m; w1 = sys w c
      in case fault w c of
           Some e \<Rightarrow> (Inl e, w1)
         | None \<Rightarrow>
             (case map_of (files w) p of
                None \<Rightarrow>
                  if O_CREATE \<in> set flags
                  then (Inr p, w1\<lparr>files := AList.update p
                          \<lparr>content = [], modTime = clock w, perm = m\<rparr> (files w)\<rparr>)
                  else (Inl ENOENT, w1)
              | Some f \<Rightarrow>
                  if O_TRUNC \<in> set flags
                  then (Inr p, w1\<lparr>files := AList.update p
                          (f\<lparr>content := [], modTime := clock w\<rparr>) (files w)\<rparr>)
                  else (Inr p, w1)))"

definition file_Stat :: "world \<Rightarrow> string \<Rightarrow> (error + fnode) \<times> world" where
  "file_Stat w h =
     (let c = SysFstat h; w1 = sys w c
      in case fault w c of
           Some e \<Rightarrow> (Inl e, w1)
         | None \<Rightarrow> (case map_of (files w) h of None \<Rightarrow> (Inl ENOENT, w1) | Some f \<Rightarrow> (Inr f, w1)))"

definition os_Stat :: "world \<Rightarrow> string \<Rightarrow> (error + fnode) \<times> world" where
  "os_Stat w p =
     (let c = SysStat p; w1 = sys w c
      in case fault w c of
           Some e \<Rightarrow> (Inl e, w1)
         | None \<Rightarrow> (case map_of (files w) p of None \<Rightarrow> (Inl ENOENT, w1) | Some f \<Rightarrow> (Inr f, w1)))"

definition entry_Info :: "world \<Rightarrow> string \<Rightarrow> (error + fnode) \<times> world" where
  "entry_Info w p =
     (let c = SysLstat p; w1 = sys w c
      in case fault w c of
           Some e \<Rightarrow> (Inl e, w1)
         | None \<Rightarrow> (case map_of (files w) p of None \<Rightarrow> (Inl ENOENT, w1) | Some f \<Rightarrow> (Inr f, w1)))"

text \<open>
  \<open>file.Write\<close> returns the number of bytes written and an error. Without a fault the
  whole entry is appended; with a fault the first \<open>short\<close> bytes (at most the entry) are.
\<close>

definition file_Write :: "world \<Rightarrow> string \<Rightarrow> bytes \<Rightarrow> nat \<times> error option \<times> world" where
  "file_Write w h b =
     (let c = SysWrite h; w1 = sys w c;
          n = (case fault w c of None \<Rightarrow> length b | Some e \<Rightarrow> min (short w) (length b))
      in (n, fault w c,
          w1\<lparr>files := AList.map_entry h
                (\<lambda>f. f\<lparr>content := content f @ take n b, modTime := clock w\<rparr>) (files w)\<rparr>))"

definition file_Sync :: "world \<Rightarrow> string \<Rightarrow> error option \<times> world" where
  "file_Sync w h = (fault w (SysSync h), sys w (SysSync h))"

definition file_Close :: "world \<Rightarrow> string \<Rightarrow> error option \<times> world" where
  "file_Close w h = (fault w (SysClose h), sys w (SysClose h))"

definition os_Rename :: "world \<Rightarrow> string \<Rightarrow> string \<Rightarrow> error option \<times> world" where
  "os_Rename w src dst =
     (let c = SysRename src dst; w1 = sys w c
      in case fault w c of
           Some e \<Rightarrow> (Some e, w1)
         | None \<Rightarrow>
             (case map_of (files w) src of
                None \<Rightarrow> (Some ENOENT, w1)
              | Some f \<Rightarrow> (None, w1\<lparr>files := AList.update dst f (AList.delete src (files w))\<rparr>)))"

definition os_Remove :: "world \<Rightarrow> string \<Rightarrow> error option \<times> world" where
  "os_Remove w p =
     (let c = SysRemove p; w1 = sys w c
      in case fault w c of
           Some e \<Rightarrow> (Some e, w1)
         | None \<Rightarrow>
             (case map_of (files w) p of
                None \<Rightarrow> (Some ENOENT, w1)
              | Some f \<Rightarrow> (None, w1\<lparr>files := AList.delete p (files w)\<rparr>)))"

subsection \<open>Paths\<close>

text \<open>
  \<open>path/filepath\<close> on a cleaned slash-separated path that names a file: \<open>Base\<close> is what
  follows the last separator, \<open>Dir\<close> what precedes it (\<open>.\<close> when there is none,
  \<open>/\<close> for a file of the root), and \<open>Join\<close> puts a directory and a name together again.
\<close>

definition filepath_Base :: "string \<Rightarrow> string" where
  "filepath_Base p = (if p = [] then ''.'' else rev (takeWhile (\<lambda>c. c \<noteq> CHR ''/'') (rev p)))"

definition filepath_Dir :: "string \<Rightarrow> string" where
  "filepath_Dir p =
     (let d = rev (dropWhile (\<lambda>c. c \<noteq> CHR ''/'') (rev p))
      in if d = [] then ''.'' else if d = ''/'' then ''/'' else butlast d)"

definition dir_prefix :: "string \<Rightarrow> string" where
  "dir_prefix dir = (if dir = ''.'' then [] else if dir = ''/'' then ''/'' else dir @ ''/'')"

definition filepath_Join :: "string \<Rightarrow> string \<Rightarrow> string" where
  "filepath_Join dir name = dir_prefix dir @ name"

definition HasPrefix :: "string \<Rightarrow> string \<Rightarrow> bool" where
  "HasPrefix s prefix = (length s \<ge> length prefix \<and> take (length prefix) s = prefix)"

text \<open>The name under which a file with path \<open>k\<close> is listed in directory \<open>dir\<close>, if it is.\<close>

definition entry_name :: "string \<Rightarrow> string \<Rightarrow> string option" where
  "entry_name dir k =
     (let pre = dir_prefix dir; n = drop (length pre) k
      in if HasPrefix k pre \<and> n \<noteq> [] \<and> CHR ''/'' \<notin> set n then Some n else None)"

text \<open>\<open>os.ReadDir\<close> returns the entries of the directory sorted by file name.\<close>

definition dir_entries :: "world \<Rightarrow> string \<Rightarrow> string list" where
  "dir_entries w dir = sort (List.map_filter (\<lambda>(k, f). entry_name dir k) (files w))"

definition os_ReadDir :: "world \<Rightarrow> string \<Rightarrow> (error + string list) \<times> world" where
  "os_ReadDir w dir =
     (let c = SysReadDir dir; w1 = sys w c
      in case fault w c of
           Some e \<Rightarrow> (Inl e, w1)
         | None \<Rightarrow> (Inr (dir_entries w dir), w1))"

section \<open>The rotating file sink\<close>

record Rotation =
  MaxSizeMB :: int
  MaxAgeDays :: int
  MaxBackups :: int
  Compress :: bool

record FileRotationOptions =
  Path :: string
  Policy :: Rotation
  Name :: string
  FileMode :: "32 word"

text \<open>
  The sink's fields, without the mutex: every method holds it from its first access to
  the state to its return, so each method is one atomic state transformer. The fields
  \<open>size\<close> and \<open>file\<close> of the source are \<open>fsize\<close> and \<open>file_p\<close> here.
\<close>

record rotatingFileSink =
  path :: string
  opt :: FileRotationOptions
  file_p :: "string option"
  fsize :: int
  created :: int
  closed :: bool

definition normalizeRotationPolicy :: "Rotation \<Rightarrow> Rotation" where
  "normalizeRotationPolicy p =
     (let p1 = (if MaxSizeMB p < 0 then p\<lparr>MaxSizeMB := 0\<rparr> else p);
          p2 = (if MaxAgeDays p1 < 0 then p1\<lparr>MaxAgeDays := 0\<rparr> else p1);
          p3 = (if MaxBackups p2 < 0 then p2\<lparr>MaxBackups := 0\<rparr> else p2)
      in p3)"

text \<open>The octal constants of the source: \<open>0o755 = 493\<close> and \<open>0o640 = 416\<close>.\<close>

definition mode_0755 :: "32 word" where
  "mode_0755 = 493"

definition mode_0640 :: "32 word" where
  "mode_0640 = 416"

definition openCurrent :: "rotatingFileSink \<Rightarrow> world \<Rightarrow> error option \<times> rotatingFileSink \<times> world" where
  "openCurrent s w =
     (let dir = filepath_Dir (path s)
      in case os_MkdirAll w dir mode_0755 of
           (Some e, w1) \<Rightarrow> (Some e, s, w1)
         | (None, w1) \<Rightarrow>
             (case os_OpenFile w1 (path s) [O_CREATE, O_APPEND, O_WRONLY] (FileMode (opt s)) of
                (Inl e, w2) \<Rightarrow> (Some e, s, w2)
              | (Inr f, w2) \<Rightarrow>
                  (case file_Stat w2 f of
                     (Inl e, w3) \<Rightarrow> (Some e, s, snd (file_Close w3 f))
                   | (Inr info, w3) \<Rightarrow>
                       (None,
                        s\<lparr>file_p := Some f, fsize := int (length (content info)),
                          created := modTime info\<rparr>,
                        w3))))"

definition shouldRotate :: "rotatingFileSink \<Rightarrow> int \<Rightarrow> int \<Rightarrow> bool" where
  "shouldRotate s now incomingBytes =
     (let p = Policy (opt s)
      in if MaxSizeMB p > 0 \<and>
            wrap64 (fsize s + incomingBytes) > wrap64 (wrap64 (MaxSizeMB p * 1024) * 1024)
         then True
         else if MaxAgeDays p > 0 \<and>
                 time_Sub now (created s) \<ge> wrap64 (wrap64 (MaxAgeDays p * 24) * Hour)
         then True
         else False)"

definition rotatedFilename :: "(int \<Rightarrow> string) \<Rightarrow> string \<Rightarrow> int \<Rightarrow> string" where
  "rotatedFilename fmt basePath t =
     (let dir = filepath_Dir basePath; name = filepath_Base basePath; ts = fmt t
      in filepath_Join dir (name @ ''.'' @ ts))"

subsection \<open>Retention\<close>

record backup =
  bpath :: string
  bmodTime :: int

text \<open>The loop over the directory entries: names without the prefix and entries whose
  \<open>Info\<close> fails are skipped.\<close>

fun collect_backups ::
  "world \<Rightarrow> string \<Rightarrow> string \<Rightarrow> string list \<Rightarrow> backup list \<Rightarrow> backup list \<times> world" where
  "collect_backups w dir prefix [] backups = (backups, w)"
| "collect_backups w dir prefix (name # entries) backups =
     (if \<not> HasPrefix name prefix then collect_backups w dir prefix entries backups
      else case entry_Info w (filepath_Join dir name) of
             (Inl e, w1) \<Rightarrow> collect_backups w1 dir prefix entries backups
           | (Inr info, w1) \<Rightarrow>
               collect_backups w1 dir prefix entries
                 (backups @ [\<lparr>bpath = filepath_Join dir name, bmodTime = modTime info\<rparr>]))"

text \<open>The loop over \<open>toDelete\<close>: the result of \<open>os.Remove\<close> is dropped.\<close>

fun remove_each :: "world \<Rightarrow> backup list \<Rightarrow> world" where
  "remove_each w [] = w"
| "remove_each w (b # bs) = remove_each (snd (os_Remove w (bpath b))) bs"

text \<open>
  \<open>sort.Slice\<close> with \<open>modTime.Before\<close> is modelled by the insertion sort on the
  modification time. \<open>sort.Slice\<close> is not stable, so on equal times the order it leaves
  is one of several; on distinct times the ascending order is unique.
\<close>

definition pruneBackups :: "world \<Rightarrow> string \<Rightarrow> int \<Rightarrow> error option \<times> world" where
  "pruneBackups w basePath maxBackups =
     (if maxBackups \<le> 0 then (None, w)
      else
        let dir = filepath_Dir basePath;
            base = filepath_Base basePath;
            prefix = base @ ''.''
        in case os_ReadDir w dir of
             (Inl e, w1) \<Rightarrow> (Some e, w1)
           | (Inr entries, w1) \<Rightarrow>
               (case collect_backups w1 dir prefix entries [] of
                  (backups, w2) \<Rightarrow>
                    if int (length backups) \<le> maxBackups then (None, w2)
                    else
                      let sorted = sort_key bmodTime backups;
                          toDelete = take (length backups - nat maxBackups) sorted
                      in (None, remove_each w2 toDelete)))"

subsection \<open>Compression\<close>

text \<open>
  \<open>compressFile\<close>: open the source, create or truncate \<open>srcPath + ".gz"\<close>, copy through
  the gzip writer (one step \<open>SysGzip\<close>, which covers \<open>io.Copy\<close> and \<open>gw.Close\<close>; when
  it fails the destination is left empty), remove the source. The two deferred
  \<open>Close\<close> calls run on every return after their \<open>defer\<close>, the destination first.
\<close>

definition compressFile :: "world \<Rightarrow> string \<Rightarrow> error option \<times> world" where
  "compressFile w srcPath =
     (case os_OpenFile w srcPath [O_RDONLY] 0 of
        (Inl e, w1) \<Rightarrow> (Some e, w1)
      | (Inr src, w1) \<Rightarrow>
          (let dstPath = srcPath @ ''.gz''
           in case os_OpenFile w1 dstPath [O_CREATE, O_WRONLY, O_TRUNC] mode_0640 of
                (Inl e, w2) \<Rightarrow> (Some e, snd (file_Close w2 src))
              | (Inr dst, w2) \<Rightarrow>
                  (let c = SysGzip src dst; w3 = sys w2 c
                   in case fault w2 c of
                        Some e \<Rightarrow> (Some e, snd (file_Close (snd (file_Close w3 dst)) src))
                      | None \<Rightarrow>
                          (let data = (case map_of (files w3) src of
                                         None \<Rightarrow> [] | Some f \<Rightarrow> gzip_bytes w3 (content f));
                               w4 = w3\<lparr>files := AList.map_entry dst
                                      (\<lambda>f. f\<lparr>content := data, modTime := clock w3\<rparr>) (files w3)\<rparr>
                           in case os_Remove w4 srcPath of
                                (r, w5) \<Rightarrow> (r, snd (file_Close (snd (file_Close w5 dst)) src))))))"

subsection \<open>Rotation\<close>

definition rotateLocked :: "rotatingFileSink \<Rightarrow> world \<Rightarrow> error option \<times> rotatingFileSink \<times> world" where
  "rotateLocked s w =
     (let (s1, w1) = (case file_p s of
                        Some f \<Rightarrow> (s\<lparr>file_p := None\<rparr>, snd (file_Close w f))
                      | None \<Rightarrow> (s, w))
      in case os_Stat w1 (path s1) of
           (Inl e, w2) \<Rightarrow> openCurrent s1 w2
         | (Inr info, w2) \<Rightarrow>
             (let backup = rotatedFilename (fmt_time w2) (path s1) (clock w2)
              in case os_Rename w2 (path s1) backup of
                   (Some e, w3) \<Rightarrow> (Some e, s1, w3)
                 | (None, w3) \<Rightarrow>
                     (let w4 = (if Compress (Policy (opt s1))
                                then snd (compressFile w3 backup) else w3);
                          w5 = (if MaxBackups (Policy (opt s1)) > 0
                                then snd (pruneBackups w4 (path s1) (MaxBackups (Policy (opt s1))))
                                else w4)
                      in openCurrent s1 w5)))"

subsection \<open>Construction and the three methods\<close>

definition NewRotatingFileSink ::
  "FileRotationOptions \<Rightarrow> world \<Rightarrow> (error + rotatingFileSink) \<times> world" where
  "NewRotatingFileSink opt0 w =
     (if Path opt0 = [] then (Inl ErrRotationNoPath, w)
      else
        let opt1 = opt0\<lparr>Policy := normalizeRotationPolicy (Policy opt0)\<rparr>;
            opt2 = (if FileMode opt1 = 0 then opt1\<lparr>FileMode := mode_0640\<rparr> else opt1);
            s = \<lparr>path = Path opt2, opt = opt2, file_p = None, fsize = 0, created = 0,
                 closed = False\<rparr>
        in case openCurrent s w of
             (Some e, s1, w1) \<Rightarrow> (Inl e, w1)
           | (None, s1, w1) \<Rightarrow> (Inr s1, w1))"

definition rotatingFileSink_Name :: "rotatingFileSink \<Rightarrow> string" where
  "rotatingFileSink_Name s =
     (if Name (opt s) \<noteq> [] then Name (opt s)
      else ''file('' @ filepath_Base (path s) @ '')'')"

text \<open>
  The last three statements of \<open>Write\<close>: append, count what was written, return the
  write's error. A \<open>Write\<close> on a nil \<open>*os.File\<close> returns \<open>os.ErrInvalid\<close> and writes nothing.
\<close>

definition append_entry ::
  "rotatingFileSink \<Rightarrow> world \<Rightarrow> bytes \<Rightarrow> error option \<times> rotatingFileSink \<times> world" where
  "append_entry s w entry =
     (case file_p s of
        None \<Rightarrow> (Some ErrInvalid, s\<lparr>fsize := wrap64 (fsize s + 0)\<rparr>, w)
      | Some f \<Rightarrow>
          (case file_Write w f entry of
             (n, err, w1) \<Rightarrow> (err, s\<lparr>fsize := wrap64 (fsize s + int n)\<rparr>, w1)))"

text \<open>What \<open>Write\<close> does between the closed check and the append: the defensive reopen
  and the rotation.\<close>

definition prepare_write ::
  "rotatingFileSink \<Rightarrow> world \<Rightarrow> bytes \<Rightarrow> error option \<times> rotatingFileSink \<times> world" where
  "prepare_write s w entry =
     (case (if file_p s = None then openCurrent s w else (None, s, w)) of
        (Some e, s1, w1) \<Rightarrow> (Some e, s1, w1)
      | (None, s1, w1) \<Rightarrow>
          if shouldRotate s1 (clock w1) (int (length entry))
          then rotateLocked s1 w1
          else (None, s1, w1))"

definition rotatingFileSink_Write ::
  "rotatingFileSink \<Rightarrow> world \<Rightarrow> ctx \<Rightarrow> bytes \<Rightarrow> error option \<times> rotatingFileSink \<times> world" where
  "rotatingFileSink_Write s w c entry =
     (case ctx_Err c of
        Some e \<Rightarrow> (Some e, s, w)
      | None \<Rightarrow>
          if closed s then (Some ErrRotationClosed, s, w)
          else
            (case prepare_write s w entry of
               (Some e, s2, w2) \<Rightarrow> (Some e, s2, w2)
             | (None, s2, w2) \<Rightarrow> append_entry s2 w2 entry))"

definition rotatingFileSink_Flush ::
  "rotatingFileSink \<Rightarrow> world \<Rightarrow> ctx \<Rightarrow> error option \<times> rotatingFileSink \<times> world" where
  "rotatingFileSink_Flush s w c =
     (case ctx_Err c of
        Some e \<Rightarrow> (Some e, s, w)
      | None \<Rightarrow>
          if closed s then (Some ErrRotationClosed, s, w)
          else
            (case file_p s of
               None \<Rightarrow> (None, s, w)
             | Some f \<Rightarrow> (case file_Sync w f of (r, w1) \<Rightarrow> (r, s, w1))))"

definition rotatingFileSink_Close ::
  "rotatingFileSink \<Rightarrow> world \<Rightarrow> ctx \<Rightarrow> error option \<times> rotatingFileSink \<times> world" where
  "rotatingFileSink_Close s w c =
     (if closed s then (None, s, w)
      else
        let s1 = s\<lparr>closed := True\<rparr>
        in case file_p s1 of
             Some f \<Rightarrow> (case file_Close w f of (r, w1) \<Rightarrow> (r, s1\<lparr>file_p := None\<rparr>, w1))
           | None \<Rightarrow> (None, s1, w))"

subsection \<open>Observations used to state the properties\<close>

text \<open>The system calls made between two worlds.\<close>

definition calls_since :: "world \<Rightarrow> world \<Rightarrow> syscall list" where
  "calls_since w w' = drop (length (trace w)) (trace w')"


text \<open>The rotation condition over the mathematical integers: bytes and nanoseconds.\<close>

definition size_exceeded :: "rotatingFileSink \<Rightarrow> nat \<Rightarrow> bool" where
  "size_exceeded s n =
     (MaxSizeMB (Policy (opt s)) > 0 \<and>
      fsize s + int n > MaxSizeMB (Policy (opt s)) * 1024 * 1024)"

definition age_reached :: "rotatingFileSink \<Rightarrow> int \<Rightarrow> bool" where
  "age_reached s now =
     (MaxAgeDays (Policy (opt s)) > 0 \<and>
      now - created s \<ge> MaxAgeDays (Policy (opt s)) * 24 * Hour)"


text \<open>The permission bits of a mode.\<close>

definition owner_read :: "32 word \<Rightarrow> bool" where "owner_read m = bit m 8"
definition owner_write :: "32 word \<Rightarrow> bool" where "owner_write m = bit m 7"
definition owner_exec :: "32 word \<Rightarrow> bool" where "owner_exec m = bit m 6"
definition group_read :: "32 word \<Rightarrow> bool" where "group_read m = bit m 5"
definition group_write :: "32 word \<Rightarrow> bool" where "group_write m = bit m 4"
definition group_exec :: "32 word \<Rightarrow> bool" where "group_exec m = bit m 3"
definition other_read :: "32 word \<Rightarrow> bool" where "other_read m = bit m 2"
definition other_write :: "32 word \<Rightarrow> bool" where "other_write m = bit m 1"
definition other_exec :: "32 word \<Rightarrow> bool" where "other_exec m = bit m 0"



definition no_faults :: "world \<Rightarrow> bool" where
  "no_faults w = (\<forall>c. fault w c = None)"

text \<open>The backup record the scan builds for the entry \<open>name\<close> of directory \<open>dir\<close>.\<close>

definition backup_of :: "world \<Rightarrow> string \<Rightarrow> string \<Rightarrow> backup" where
  "backup_of w dir name =
     \<lparr>bpath = filepath_Join dir name,
      bmodTime = (case map_of (files w) (filepath_Join dir name) of
                    None \<Rightarrow> 0 | Some f \<Rightarrow> modTime f)\<rparr>"

section \<open>The batch sink\<close>

text \<open>
  \<open>Backpressure\<close> is a \<open>uint8\<close> with three named values; the other 253 values exist and
  are what \<open>WithBatch\<close> and the \<open>default\<close> branch of \<open>Write\<close> are written for.
\<close>

type_synonym Backpressure = "8 word"

definition BackpressureBlock :: Backpressure where
  "BackpressureBlock = 0"

definition BackpressureDrop :: Backpressure where
  "BackpressureDrop = 1"

definition BackpressureShed :: Backpressure where
  "BackpressureShed = 2"

record Batch =
  MaxEntries :: int
  Interval :: int

record BatchOptions =
  QueueSize :: int
  BatchPolicy :: Batch
  BackpressureMode :: Backpressure
  BName :: string

text \<open>
  The wrapped sink is opaque to the wrapper: the model keeps the list of calls made on it
  (\<open>next_calls\<close>) and takes what it answers from \<open>next_answer\<close>, a function of the calls so
  far, the last one being the call answered.
\<close>

datatype icall = IWrite bytes | IFlush | IClose

datatype wstate = WRunning | WDraining | WExited

text \<open>
  The wrapper with its worker. \<open>queue\<close> is the buffer of the channel, oldest element
  first, an element \<open>None\<close> being a nil slice; \<open>stop\<close> and \<open>done\<close> say whether the
  channel of that name has been closed; \<open>batch\<close> is the worker's local slice and
  \<open>worker\<close> the place the worker goroutine is at: in its main loop, in the drain loop
  after the stop signal, or returned.
\<close>

record batchSink =
  next_calls :: "icall list"
  next_answer :: "icall list \<Rightarrow> error option"
  bopt :: BatchOptions
  queue :: "bytes option list"
  stop :: bool
  done_c :: bool
  bclosed :: bool
  batch :: "bytes list"
  worker :: wstate

definition WithBatch :: "(icall list \<Rightarrow> error option) \<Rightarrow> BatchOptions \<Rightarrow> batchSink" where
  "WithBatch nxt opt0 =
     (let opt1 = (if QueueSize opt0 \<le> 0 then opt0\<lparr>QueueSize := 1024\<rparr> else opt0);
          opt2 = (if BackpressureMode opt1 \<noteq> BackpressureBlock \<and>
                     BackpressureMode opt1 \<noteq> BackpressureDrop \<and>
                     BackpressureMode opt1 \<noteq> BackpressureShed
                  then opt1\<lparr>BackpressureMode := BackpressureBlock\<rparr> else opt1)
      in \<lparr>next_calls = [], next_answer = nxt, bopt = opt2, queue = [], stop = False,
          done_c = False, bclosed = False, batch = [], worker = WRunning\<rparr>)"

text \<open>A call of the wrapped sink: it is recorded and its answer returned.\<close>

definition call_next :: "batchSink \<Rightarrow> icall \<Rightarrow> error option \<times> batchSink" where
  "call_next s c =
     (next_answer s (next_calls s @ [c]), s\<lparr>next_calls := next_calls s @ [c]\<rparr>)"

text \<open>
  A send on the buffered channel that does not wait: it succeeds exactly when the buffer
  has room. (A receiver can only be waiting while the buffer is empty.)
\<close>

definition try_send :: "batchSink \<Rightarrow> bytes option \<Rightarrow> batchSink option" where
  "try_send s b =
     (if int (length (queue s)) < QueueSize (bopt s)
      then Some (s\<lparr>queue := queue s @ [b]\<rparr>) else None)"

text \<open>
  A method either returns or is left waiting in a \<open>select\<close>. A waiting \<open>select\<close> is
  resolved later, in the state the sink then has: \<open>select_send\<close> and \<open>select_done\<close>
  list the ways it can be resolved in a given state and context. The empty list means
  that the caller goes on waiting; two elements mean that both cases are ready and
  the runtime picks one.
\<close>

datatype 'a progress = Returns "error option" | Waits 'a

definition select_send :: "batchSink \<Rightarrow> ctx \<Rightarrow> bytes \<Rightarrow> (error option \<times> batchSink) list" where
  "select_send s c buf =
     (case try_send s (Some buf) of Some s' \<Rightarrow> [(None, s')] | None \<Rightarrow> []) @
     (case ctx_Err c of Some e \<Rightarrow> [(Some e, s)] | None \<Rightarrow> [])"

text \<open>
  \<open>Write\<close> up to its return or to the blocking \<open>select\<close>. \<open>buf\<close> is the copy of the
  entry, a slice made by \<open>make\<close> and so never nil.
\<close>

definition batchSink_Write :: "batchSink \<Rightarrow> ctx \<Rightarrow> bytes \<Rightarrow> bytes progress \<times> batchSink" where
  "batchSink_Write s c entry =
     (if bclosed s then (Returns (Some ErrBatchClosed), s)
      else
        let buf = entry
        in case try_send s (Some buf) of
             Some s' \<Rightarrow> (Returns None, s')
           | None \<Rightarrow>
               if BackpressureMode (bopt s) = BackpressureDrop \<or>
                  BackpressureMode (bopt s) = BackpressureShed
               then (Returns (Some ErrQueueFull), s)
               else if BackpressureMode (bopt s) = BackpressureBlock
               then (Waits buf, s)
               else (Waits buf, s))"

definition batchSink_Flush :: "batchSink \<Rightarrow> ctx \<Rightarrow> error option \<times> batchSink" where
  "batchSink_Flush s c =
     (if bclosed s then (Some ErrBatchClosed, s) else call_next s IFlush)"

text \<open>
  \<open>Close\<close> up to its first return or to the \<open>select\<close> on \<open>done\<close> and the context:
  the swap of the flag and, after a first call, the closing of \<open>stop\<close>.
\<close>

definition batchSink_Close :: "batchSink \<Rightarrow> ctx \<Rightarrow> unit progress \<times> batchSink" where
  "batchSink_Close s c =
     (if bclosed s then (Returns None, s\<lparr>bclosed := True\<rparr>)
      else (Waits (), s\<lparr>bclosed := True, stop := True\<rparr>))"

definition select_done :: "batchSink \<Rightarrow> ctx \<Rightarrow> (error option \<times> batchSink) list" where
  "select_done s c =
     (if done_c s then [call_next s IClose] else []) @
     (case ctx_Err c of Some e \<Rightarrow> [(Some e, s)] | None \<Rightarrow> [])"

subsection \<open>The worker\<close>

text \<open>
  The closure \<open>flush\<close> of \<open>run\<close>; the answers of the wrapped sink are dropped. The
  calls of one flush are recorded together: a producer's \<open>Flush\<close> that reaches the
  wrapped sink between two of them would stand between them in \<open>next_calls\<close> and change
  nothing else.
\<close>

definition flush :: "batchSink \<Rightarrow> batchSink" where
  "flush s =
     (if length (batch s) = 0 then s
      else s\<lparr>next_calls := next_calls s @ map IWrite (batch s) @ [IFlush], batch := []\<rparr>)"

text \<open>What both loops do with a received element.\<close>

definition on_entry :: "batchSink \<Rightarrow> bytes option \<Rightarrow> batchSink" where
  "on_entry s e =
     (case e of
        None \<Rightarrow> s
      | Some b \<Rightarrow>
          (let s1 = s\<lparr>batch := batch s @ [b]\<rparr>
           in if MaxEntries (BatchPolicy (bopt s1)) > 0 \<and>
                 int (length (batch s1)) \<ge> MaxEntries (BatchPolicy (bopt s1))
              then flush s1 else s1))"

text \<open>
  One turn of the worker. In the main loop the \<open>select\<close> has three cases: an element of
  the queue, a tick of the timer (there is a timer only when the interval is positive),
  the stop signal. In the drain loop the \<open>select\<close> has a \<open>default\<close>, so that turn is
  determined by the queue: take an element, or flush, close \<open>done\<close> and return.
  \<open>worker_step s ev\<close> is \<open>None\<close> when the case \<open>ev\<close> is not ready in \<open>s\<close>.
\<close>

datatype wevent = Recv | Tick | Stop | Drain

definition worker_step :: "batchSink \<Rightarrow> wevent \<Rightarrow> batchSink option" where
  "worker_step s ev =
     (case worker s of
        WRunning \<Rightarrow>
          (case ev of
             Recv \<Rightarrow> (case queue s of [] \<Rightarrow> None
                       | e # q \<Rightarrow> Some (on_entry (s\<lparr>queue := q\<rparr>) e))
           | Tick \<Rightarrow> if Interval (BatchPolicy (bopt s)) > 0 then Some (flush s) else None
           | Stop \<Rightarrow> if stop s then Some (s\<lparr>worker := WDraining\<rparr>) else None
           | Drain \<Rightarrow> None)
      | WDraining \<Rightarrow>
          (case ev of
             Drain \<Rightarrow> (case queue s of
                          e # q \<Rightarrow> Some (on_entry (s\<lparr>queue := q\<rparr>) e)
                        | [] \<Rightarrow> Some ((flush s)\<lparr>worker := WExited, done_c := True\<rparr>))
           | _ \<Rightarrow> None)
      | WExited \<Rightarrow> None)"

subsection \<open>Runs of the wrapper\<close>

text \<open>
  The wrapper is used by any number of producers while its worker runs. A run is a
  sequence of atomic steps, each labelled with what happened: a \<open>Write\<close> that returned at
  once or a waiting one that was resolved (with the entry and the result), a turn of
  the worker, a \<open>Flush\<close>, the first part of a \<open>Close\<close>, the resolution of a waiting
  \<open>Close\<close>. A send of a waiting \<open>Write\<close> may happen in any later state, whatever the
  \<open>closed\<close> flag then says, as in the source.
\<close>

datatype label =
    LWrite bytes "error option"
  | LBlocked bytes
  | LWorker wevent
  | LFlush "error option"
  | LClose
  | LClosed "error option"

inductive bstep :: "batchSink \<Rightarrow> label \<Rightarrow> batchSink \<Rightarrow> bool" where
  write_returns: "batchSink_Write s c e = (Returns r, s') \<Longrightarrow> bstep s (LWrite e r) s'"
| write_waits: "batchSink_Write s c e = (Waits buf, s') \<Longrightarrow> bstep s (LBlocked e) s'"
| write_resumes: "(r, s') \<in> set (select_send s c buf) \<Longrightarrow> bstep s (LWrite buf r) s'"
| worker_turn: "worker_step s ev = Some s' \<Longrightarrow> bstep s (LWorker ev) s'"
| flush_call: "batchSink_Flush s c = (r, s') \<Longrightarrow> bstep s (LFlush r) s'"
| close_call: "batchSink_Close s c = (p, s') \<Longrightarrow> bstep s LClose s'"
| close_resumes: "(r, s') \<in> set (select_done s c) \<Longrightarrow> bstep s (LClosed r) s'"

inductive run :: "batchSink \<Rightarrow> label list \<Rightarrow> batchSink \<Rightarrow> bool" where
  run_nil: "run s [] s"
| run_snoc: "run s ls s1 \<Longrightarrow> bstep s1 l s2 \<Longrightarrow> run s (ls @ [l]) s2"

text \<open>The entries accepted in a run, in the order of their acceptance, and the entries
  the wrapped sink was handed by \<open>Write\<close>, in the order of the calls.\<close>

fun accepted :: "label list \<Rightarrow> bytes list" where
  "accepted [] = []"
| "accepted (LWrite e None # ls) = e # accepted ls"
| "accepted (l # ls) = accepted ls"

fun delivered :: "icall list \<Rightarrow> bytes list" where
  "delivered [] = []"
| "delivered (IWrite b # cs) = b # delivered cs"
| "delivered (c # cs) = delivered cs"

text \<open>The non-nil elements of the queue.\<close>

fun queued :: "bytes option list \<Rightarrow> bytes list" where
  "queued [] = []"
| "queued (Some b # q) = b # queued q"
| "queued (None # q) = queued q"

section \<open>Notions used in the proofs\<close>

text \<open>
  \<open>w'\<close> is \<open>w\<close> after further system calls, none of them a write to a file; the
  fault table, the clock and the time format are those of \<open>w\<close>.
\<close>

definition extends_without_write :: "world \<Rightarrow> world \<Rightarrow> bool" where
  "extends_without_write w w' =
     (fault w' = fault w \<and> clock w' = clock w \<and> fmt_time w' = fmt_time w \<and>
      (\<exists>cs. trace w' = trace w @ cs \<and> (\<forall>h. SysWrite h \<notin> set cs)))"

text \<open>
  Everything the wrapper has taken in, oldest first: what the wrapped sink has been
  handed, then the worker's batch, then the queue.
\<close>

definition pending :: "batchSink \<Rightarrow> bytes list" where
  "pending s = delivered (next_calls s) @ batch s @ queued (queue s)"

subsection \<open>Replaying a list of events\<close>

text \<open>
  An event names one step of a run so that the step can be computed: \<open>fire\<close> gives the
  label and the state after the step (\<open>None\<close> when the step is not possible), the index
  in \<open>EResume\<close> and \<open>ECloseResume\<close> picks among the ready cases of the \<open>select\<close>.
\<close>

datatype event =
    EWrite ctx bytes
  | EResume ctx bytes nat
  | EWorker wevent
  | EFlush ctx
  | EClose ctx
  | ECloseResume ctx nat

fun fire :: "batchSink \<Rightarrow> event \<Rightarrow> (label \<times> batchSink) option" where
  "fire s (EWrite c e) =
     (case batchSink_Write s c e of
        (Returns r, s') \<Rightarrow> Some (LWrite e r, s')
      | (Waits buf, s') \<Rightarrow> Some (LBlocked e, s'))"
| "fire s (EResume c buf i) =
     (if i < length (select_send s c buf)
      then Some (LWrite buf (fst (select_send s c buf ! i)), snd (select_send s c buf ! i))
      else None)"
| "fire s (EWorker ev) =
     (case worker_step s ev of None \<Rightarrow> None | Some s' \<Rightarrow> Some (LWorker ev, s'))"
| "fire s (EFlush c) = (case batchSink_Flush s c of (r, s') \<Rightarrow> Some (LFlush r, s'))"
| "fire s (EClose c) = (case batchSink_Close s c of (p, s') \<Rightarrow> Some (LClose, s'))"
| "fire s (ECloseResume c i) =
     (if i < length (select_done s c)
      then Some (LClosed (fst (select_done s c ! i)), snd (select_done s c ! i))
      else None)"

fun replay :: "batchSink \<Rightarrow> event list \<Rightarrow> (label list \<times> batchSink) option" where
  "replay s [] = Some ([], s)"
| "replay s (e # es) =
     (case fire s e of
        None \<Rightarrow> None
      | Some (l, s1) \<Rightarrow>
          (case replay s1 es of None \<Rightarrow> None | Some (ls, s2) \<Rightarrow> Some (l # ls, s2)))"

section \<open>Example values\<close>

text \<open>
  A sink on \<open>app.log\<close> with a one-day age limit, a disk holding that file, a clock two
  days after the file's creation, and fault tables that fail one system call each.
\<close>

definition ex_world :: world where
  "ex_world = \<lparr>files = [], clock = 0, fault = (\<lambda>c. None), short = 0,
     fmt_time = (\<lambda>t. ''19700103-000000''), gzip_bytes = (\<lambda>b. b), trace = []\<rparr>"

definition ex_policy :: Rotation where
  "ex_policy = \<lparr>MaxSizeMB = 0, MaxAgeDays = 1, MaxBackups = 0, Compress = False\<rparr>"

definition ex_opt :: FileRotationOptions where
  "ex_opt = \<lparr>Path = ''app.log'', Policy = ex_policy, Name = [], FileMode = 0\<rparr>"

definition ex_node :: fnode where
  "ex_node = \<lparr>content = ''old'', modTime = 0, perm = mode_0640\<rparr>"

definition ex_sink :: rotatingFileSink where
  "ex_sink = \<lparr>path = ''app.log'', opt = ex_opt\<lparr>FileMode := mode_0640\<rparr>,
     file_p = Some ''app.log'', fsize = 3, created = 0, closed = False\<rparr>"

definition two_days :: int where
  "two_days = 172800000000000"

definition ex_disk :: world where
  "ex_disk = ex_world\<lparr>files := [(''app.log'', ex_node)], clock := two_days\<rparr>"



definition ex_write_fails :: "syscall \<Rightarrow> error option" where
  "ex_write_fails c = (if c = SysWrite ''app.log'' then Some (OSError 5) else None)"

definition ex_closed :: rotatingFileSink where
  "ex_closed = ex_sink\<lparr>file_p := None, closed := True\<rparr>"


definition ex_fresh :: rotatingFileSink where
  "ex_fresh = ex_sink\<lparr>created := two_days\<rparr>"

definition ex_short_write :: world where
  "ex_short_write = ex_disk\<lparr>fault := ex_write_fails, short := 2\<rparr>"

definition ex_huge_age :: rotatingFileSink where
  "ex_huge_age = ex_sink\<lparr>opt := ex_opt\<lparr>Policy := ex_policy\<lparr>MaxAgeDays := 106752\<rparr>,
     FileMode := mode_0640\<rparr>, created := two_days\<rparr>"

definition ex_was_closed :: rotatingFileSink where
  "ex_was_closed = fst (snd (rotatingFileSink_Close ex_sink ex_disk Live))"

definition ex_disk_closed :: world where
  "ex_disk_closed = snd (snd (rotatingFileSink_Close ex_sink ex_disk Live))"




text \<open>
  A wrapper with a queue of one element and \<open>Drop\<close>, its wrapped sink answering nil to
  every call, and a run that meets a flush by the timer, one by the count and the final
  drain.
\<close>

definition ex_next :: "icall list \<Rightarrow> error option" where
  "ex_next cs = None"

definition ex_bopt :: BatchOptions where
  "ex_bopt = \<lparr>QueueSize = 1, BatchPolicy = \<lparr>MaxEntries = 2, Interval = 1\<rparr>,
     BackpressureMode = BackpressureDrop, BName = []\<rparr>"

definition ex_batch :: batchSink where
  "ex_batch = WithBatch ex_next ex_bopt"

definition ex_events :: "event list" where
  "ex_events =
     [EWrite Live ''a'', EWorker Recv, EWorker Tick,
      EWrite Live ''b'', EWorker Recv, EWrite Live ''c'', EWorker Recv,
      EWrite Live ''d'', EClose Live, EWorker Stop, EWorker Drain, EWorker Drain,
      ECloseResume Live 0]"

definition ex_full :: batchSink where
  "ex_full = snd (batchSink_Write ex_batch Live ''a'')"


definition ex_full_closed :: batchSink where
  "ex_full_closed = snd (batchSink_Close ex_full CtxCanceled)"

section \<open>Facts about the file system\<close>

lemma sys_fields [simp]:
  "trace (sys w c) = trace w @ [c]" "files (sys w c) = files w" "fault (sys w c) = fault w"
  "clock (sys w c) = clock w" "short (sys w c) = short w" "fmt_time (sys w c) = fmt_time w"
  "gzip_bytes (sys w c) = gzip_bytes w"
  by (simp_all add: sys_def)

lemma no_faults_sys [simp]: "no_faults (sys w c) = no_faults w"
  by (simp add: no_faults_def)

lemma no_faults_files [simp]: "no_faults (w\<lparr>files := fs\<rparr>) = no_faults w"
  by (simp add: no_faults_def)

lemma wrap64_id: "minInt64 \<le> x \<Longrightarrow> x \<le> maxInt64 \<Longrightarrow> wrap64 x = x"
  by (simp add: wrap64_def minInt64_def maxInt64_def)


lemma eww_refl [simp]: "extends_without_write w w"
  by (simp add: extends_without_write_def)


lemma eww_sys: "(\<And>h. c \<noteq> SysWrite h) \<Longrightarrow> extends_without_write w (sys w c)"
  by (auto simp: extends_without_write_def)

lemma eww_files_update [simp]: "extends_without_write w (w'\<lparr>files := fs\<rparr>) = extends_without_write w w'"
  by (simp add: extends_without_write_def)

lemma eww_MkdirAll: "extends_without_write w (snd (os_MkdirAll w d m))"
  by (simp add: os_MkdirAll_def eww_sys)

lemma eww_OpenFile: "extends_without_write w (snd (os_OpenFile w p fl m))"
  by (simp add: os_OpenFile_def Let_def eww_sys split: option.splits)

lemma eww_file_Stat: "extends_without_write w (snd (file_Stat w h))"
  by (simp add: file_Stat_def Let_def eww_sys split: option.splits)







section \<open>Facts about the rotating file sink\<close>


lemma openCurrent_state:
  assumes "openCurrent s w = (r, s', w')"
  shows "(r = None \<longrightarrow> file_p s' = Some (path s) \<and> path s' = path s \<and> opt s' = opt s \<and> closed s' = closed s)
       \<and> (r \<noteq> None \<longrightarrow> s' = s) \<and> clock w' = clock w \<and> fault w' = fault w"
  using assms
  by (auto simp: openCurrent_def os_MkdirAll_def os_OpenFile_def file_Stat_def file_Close_def Let_def
      split: option.splits sum.splits prod.splits if_splits)














text \<open>
  The products in \<open>shouldRotate\<close> are 64-bit: \<open>MaxAgeDays = 106752\<close> days are more
  nanoseconds than an \<open>int64\<close> holds, the product wraps to a negative duration, and a file
  of age zero is rotated. With \<open>106751\<close> days the product fits. \<open>thresholds_fit\<close> is the
  range in which the products are the numbers they stand for.
\<close>

lemma shouldRotate_overflow_example:
  "\<not> age_reached ex_huge_age two_days \<and> \<not> size_exceeded ex_huge_age 1 \<and>
   shouldRotate ex_huge_age two_days 1 \<and>
   \<not> shouldRotate (ex_huge_age\<lparr>opt := ex_opt\<lparr>Policy := ex_policy\<lparr>MaxAgeDays := 106751\<rparr>\<rparr>\<rparr>)
        two_days 1"
  by code_simp


lemma Write_open_eq:
  assumes "ctx_Err c = None" "\<not> closed s"
  shows "rotatingFileSink_Write s w c entry =
           (case prepare_write s w entry of
              (Some e, s2, w2) \<Rightarrow> (Some e, s2, w2)
            | (None, s2, w2) \<Rightarrow> append_entry s2 w2 entry)"
  using assms by (simp add: rotatingFileSink_Write_def)



lemma prepare_write_handle:
  assumes "prepare_write s w entry = (None, s2, w2)"
  shows "file_p s2 \<noteq> None"
proof -
  have oc: "openCurrent t v = (None, t', v') \<Longrightarrow> file_p t' \<noteq> None" for t :: rotatingFileSink and v t' v'
    using openCurrent_state [of t v None t' v'] by simp
  have rl: "rotateLocked t v = (None, t', v') \<Longrightarrow> file_p t' \<noteq> None" for t :: rotatingFileSink and v t' v'
    unfolding rotateLocked_def Let_def
    by (cases "file_p t") (auto split: option.splits sum.splits prod.splits if_splits dest: oc)
  show ?thesis
    using assms unfolding prepare_write_def
    by (auto split: option.splits prod.splits if_splits dest: oc rl)
qed

section \<open>Rotation: when it runs and how it fails\<close>







section \<open>The default file mode, the size counter, cancelled contexts\<close>

text \<open>
  Claim C7, as the code has it. A sink constructed with mode zero carries mode \<open>0640\<close>; the
  constructor makes the directory, opens the file with \<open>O_CREATE\<close>, \<open>O_APPEND\<close>,
  \<open>O_WRONLY\<close> and that mode, and stats it; a file it creates has that mode. \<open>0640\<close> is read
  and write for the owner, read only for the group, nothing for others, no execute bit.
\<close>

theorem C7_default_mode:
  assumes "FileMode opt0 = 0" and "NewRotatingFileSink opt0 w = (Inr s, w')"
  shows "FileMode (opt s) = mode_0640 \<and>
         calls_since w w' =
           [SysMkdirAll (filepath_Dir (Path opt0)) mode_0755,
            SysOpenFile (Path opt0) [O_CREATE, O_APPEND, O_WRONLY] mode_0640,
            SysFstat (Path opt0)] \<and>
         (map_of (files w) (Path opt0) = None \<longrightarrow>
            map_option perm (map_of (files w') (Path opt0)) = Some mode_0640) \<and>
         owner_read mode_0640 \<and> owner_write mode_0640 \<and> \<not> owner_exec mode_0640 \<and>
         group_read mode_0640 \<and> \<not> group_write mode_0640 \<and> \<not> group_exec mode_0640 \<and>
         \<not> other_read mode_0640 \<and> \<not> other_write mode_0640 \<and> \<not> other_exec mode_0640"
proof -
  have bits: "owner_read mode_0640 \<and> owner_write mode_0640 \<and> \<not> owner_exec mode_0640 \<and>
         group_read mode_0640 \<and> \<not> group_write mode_0640 \<and> \<not> group_exec mode_0640 \<and>
         \<not> other_read mode_0640 \<and> \<not> other_write mode_0640 \<and> \<not> other_exec mode_0640"
    by (simp add: mode_0640_def owner_read_def owner_write_def owner_exec_def group_read_def
        group_write_def group_exec_def other_read_def other_write_def other_exec_def)
  have rest: "FileMode (opt s) = mode_0640 \<and>
         calls_since w w' =
           [SysMkdirAll (filepath_Dir (Path opt0)) mode_0755,
            SysOpenFile (Path opt0) [O_CREATE, O_APPEND, O_WRONLY] mode_0640,
            SysFstat (Path opt0)] \<and>
         (map_of (files w) (Path opt0) = None \<longrightarrow>
            map_option perm (map_of (files w') (Path opt0)) = Some mode_0640)"
    using assms
    by (auto simp: NewRotatingFileSink_def openCurrent_def os_MkdirAll_def os_OpenFile_def
          file_Stat_def file_Close_def Let_def calls_since_def update_conv'
        split: option.splits sum.splits prod.splits if_splits)
  from rest bits show ?thesis by blast
qed

text \<open>
  Claim C7 as stated gives the group write access. The file the constructor creates under
  mode zero has no group write bit.
\<close>

theorem C7_group_write_counterexample:
  "FileMode ex_opt = 0 \<and>
   map_option (group_write \<circ> perm)
     (map_of (files (snd (NewRotatingFileSink ex_opt ex_world))) ''app.log'') = Some False"
  by code_simp

text \<open>
  Claim C7 at work: the constructor on an empty disk.
\<close>

theorem C7_default_mode_witness:
  "FileMode ex_opt = 0 \<and> isl (fst (NewRotatingFileSink ex_opt ex_world)) = False \<and>
   FileMode (opt (projr (fst (NewRotatingFileSink ex_opt ex_world)))) = mode_0640 \<and>
   calls_since ex_world (snd (NewRotatingFileSink ex_opt ex_world)) =
     [SysMkdirAll ''.'' mode_0755,
      SysOpenFile ''app.log'' [O_CREATE, O_APPEND, O_WRONLY] mode_0640,
      SysFstat ''app.log'']"
proof -
  let ?N = "NewRotatingFileSink ex_opt ex_world"
  have 1: "FileMode ex_opt = 0" by (simp add: ex_opt_def)
  have 2: "\<not> isl (fst ?N)" by code_simp
  then have 3: "?N = (Inr (projr (fst ?N)), snd ?N)"
    by (metis prod.collapse sum.collapse(2))
  have 4: "filepath_Dir (Path ex_opt) = ''.''" "Path ex_opt = ''app.log''" by code_simp+
  from C7_default_mode [OF 1 3] 1 2 4 show ?thesis by simp
qed

text \<open>
  Claim C8. When \<open>Write\<close> reaches the append with sink \<open>s2\<close> and the file write reports
  \<open>n\<close> bytes and the result \<open>err\<close>, nil or not, then \<open>Write\<close> returns \<open>err\<close> and the sink
  is \<open>s2\<close> with its size increased by \<open>n\<close> in 64-bit arithmetic, which is the sum itself
  for every size a file can have.
\<close>

theorem C8_size_counts_written_bytes:
  assumes live: "ctx_Err c = None" and op: "\<not> closed s"
    and prep: "prepare_write s w entry = (None, s2, w2)"
    and h: "file_p s2 = Some f"
    and wr: "file_Write w2 f entry = (n, err, w3)"
  shows "rotatingFileSink_Write s w c entry = (err, s2\<lparr>fsize := wrap64 (fsize s2 + int n)\<rparr>, w3) \<and>
         (0 \<le> fsize s2 \<and> fsize s2 + int n \<le> maxInt64 \<longrightarrow>
            wrap64 (fsize s2 + int n) = fsize s2 + int n)"
  using prep h wr
  by (auto simp: Write_open_eq [OF live op] append_entry_def minInt64_def intro!: wrap64_id)

text \<open>
  Claim C8 at work: the write of five bytes fails after two; \<open>Write\<close> returns the error
  and the size has grown by two.
\<close>

theorem C8_size_counts_written_bytes_witness:
  "ctx_Err Live = None \<and> \<not> closed ex_fresh \<and>
   fst (prepare_write ex_fresh ex_short_write ''hello'') = None \<and>
   file_p (fst (snd (prepare_write ex_fresh ex_short_write ''hello''))) = Some ''app.log'' \<and>
   fst (file_Write (snd (snd (prepare_write ex_fresh ex_short_write ''hello'')))
          ''app.log'' ''hello'') = 2 \<and>
   fst (rotatingFileSink_Write ex_fresh ex_short_write Live ''hello'') = Some (OSError 5) \<and>
   fsize (fst (snd (rotatingFileSink_Write ex_fresh ex_short_write Live ''hello'')))
     = fsize (fst (snd (prepare_write ex_fresh ex_short_write ''hello''))) + 2"
proof -
  let ?P = "prepare_write ex_fresh ex_short_write ''hello''"
  let ?F = "file_Write (snd (snd ?P)) ''app.log'' ''hello''"
  have 1: "ctx_Err Live = None" "\<not> closed ex_fresh"
    by (simp_all add: ex_fresh_def ex_sink_def)
  have p: "fst ?P = None" by code_simp
  then have 2: "?P = (None, fst (snd ?P), snd (snd ?P))" by (metis prod.collapse)
  have h: "file_p (fst (snd ?P)) = Some ''app.log''" by code_simp
  have n: "fst ?F = 2" by code_simp
  have e: "fst (snd ?F) = Some (OSError 5)" by code_simp
  have 3: "?F = (2, Some (OSError 5), snd (snd ?F))"
    using n e by (metis prod.collapse)
  have 4: "0 \<le> fsize (fst (snd ?P)) \<and> fsize (fst (snd ?P)) + int 2 \<le> maxInt64"
    by code_simp
  from C8_size_counts_written_bytes [OF 1 2 h 3] 4 1 p h n show ?thesis by simp
qed

text \<open>
  Claim C9. With a cancelled or expired context \<open>Write\<close> and \<open>Flush\<close> of the rotating sink
  return the context's error and leave sink and world as they are, whatever the state of
  the sink, closed or not; the error is never \<open>ErrRotationClosed\<close>.
\<close>

theorem C9_cancelled_context_first:
  assumes "ctx_Err c = Some e"
  shows "rotatingFileSink_Write s w c entry = (Some e, s, w) \<and>
         rotatingFileSink_Flush s w c = (Some e, s, w) \<and> e \<noteq> ErrRotationClosed"
  using assms by (cases c) (simp_all add: rotatingFileSink_Write_def rotatingFileSink_Flush_def)

text \<open>
  Claim C9 at work: a closed sink and a cancelled context; the answer is \<open>Canceled\<close>.
\<close>

theorem C9_cancelled_context_first_witness:
  "ctx_Err CtxCanceled = Some Canceled \<and> closed ex_closed \<and>
   rotatingFileSink_Write ex_closed ex_disk CtxCanceled ''x'' = (Some Canceled, ex_closed, ex_disk) \<and>
   rotatingFileSink_Flush ex_closed ex_disk CtxCanceled = (Some Canceled, ex_closed, ex_disk)"
proof -
  have 1: "ctx_Err CtxCanceled = Some Canceled" by simp
  have 2: "closed ex_closed" by (simp add: ex_closed_def)
  from C9_cancelled_context_first [OF 1, of ex_closed ex_disk "''x''"] 1 2 show ?thesis by simp
qed

section \<open>Retention\<close>













lemma bpath_backup_of [simp]: "bpath (backup_of w dir n) = filepath_Join dir n"
  by (simp add: backup_of_def)










section \<open>The batch sink: backpressure, order of delivery, closing\<close>

lemma delivered_append [simp]: "delivered (xs @ ys) = delivered xs @ delivered ys"
  by (induction xs rule: delivered.induct) simp_all

lemma delivered_map_IWrite [simp]: "delivered (map IWrite bs) = bs"
  by (induction bs) simp_all

lemma queued_append [simp]: "queued (xs @ ys) = queued xs @ queued ys"
  by (induction xs rule: queued.induct) simp_all

lemma accepted_append [simp]: "accepted (xs @ ys) = accepted xs @ accepted ys"
  by (induction xs rule: accepted.induct) simp_all

lemma flush_pending [simp]: "pending (flush s) = pending s"
  by (simp add: flush_def pending_def)

lemma flush_fields [simp]:
  "queue (flush s) = queue s" "worker (flush s) = worker s" "bclosed (flush s) = bclosed s"
  "bopt (flush s) = bopt s"
  by (simp_all add: flush_def)

lemma flush_batch_empty [simp]: "batch (flush s) = []"
  by (simp add: flush_def)

lemma on_entry_pending:
  "pending (on_entry (s\<lparr>queue := q\<rparr>) e) = delivered (next_calls s) @ batch s @ queued (e # q)"
proof (cases e)
  case None
  then show ?thesis by (simp add: on_entry_def pending_def)
next
  case (Some b)
  let ?s1 = "s\<lparr>queue := q, batch := batch s @ [b]\<rparr>"
  have "pending (on_entry (s\<lparr>queue := q\<rparr>) e) = pending ?s1"
    using Some by (simp add: on_entry_def Let_def)
  then show ?thesis using Some by (simp add: pending_def)
qed

lemma on_entry_fields [simp]:
  "worker (on_entry s e) = worker s" "bclosed (on_entry s e) = bclosed s"
  by (simp_all add: on_entry_def Let_def split: option.splits)

lemma pending_updates [simp]:
  "pending (s\<lparr>worker := x\<rparr>) = pending s" "pending (s\<lparr>done_c := y\<rparr>) = pending s"
  "pending (s\<lparr>stop := y\<rparr>) = pending s" "pending (s\<lparr>bclosed := y\<rparr>) = pending s"
  by (simp_all add: pending_def)

lemma worker_step_pending:
  assumes "worker_step s ev = Some s'"
  shows "pending s' = pending s"
  using assms
  by (auto simp: worker_step_def on_entry_pending split: wstate.splits wevent.splits list.splits if_splits)
     (simp_all add: pending_def)

lemma worker_step_exit:
  assumes "worker_step s ev = Some s'" "worker s = WExited \<longrightarrow> batch s = []"
  shows "worker s' = WExited \<longrightarrow> batch s' = []"
  using assms
  by (auto simp: worker_step_def split: wstate.splits wevent.splits list.splits if_splits)

lemma bstep_pending:
  assumes "bstep s l s'"
  shows "pending s' = pending s @ accepted [l]"
  using assms
proof cases
  case (write_returns c e r)
  then show ?thesis
    by (auto simp: batchSink_Write_def try_send_def pending_def Let_def split: if_splits)
next
  case (write_waits c e buf)
  then show ?thesis
    by (auto simp: batchSink_Write_def try_send_def pending_def Let_def split: if_splits)
next
  case (write_resumes r c buf)
  then show ?thesis
    by (cases "ctx_Err c")
       (auto simp: select_send_def try_send_def pending_def split: if_splits)
next
  case (worker_turn ev)
  then show ?thesis by (simp add: worker_step_pending)
next
  case (flush_call c r)
  then show ?thesis
    by (auto simp: batchSink_Flush_def call_next_def pending_def split: if_splits)
next
  case (close_call c p)
  then show ?thesis
    by (auto simp: batchSink_Close_def pending_def split: if_splits)
next
  case (close_resumes r c)
  then show ?thesis
    by (auto simp: select_done_def call_next_def pending_def split: if_splits option.splits)
qed

lemma bstep_exit:
  assumes "bstep s l s'" "worker s = WExited \<longrightarrow> batch s = []"
  shows "worker s' = WExited \<longrightarrow> batch s' = []"
  using assms
proof cases
  case (worker_turn ev)
  then show ?thesis using assms(2) worker_step_exit by blast
qed (auto simp: batchSink_Write_def try_send_def select_send_def batchSink_Flush_def call_next_def
       batchSink_Close_def select_done_def Let_def split: if_splits option.splits)

lemma fire_bstep: "fire s ev = Some (l, s') \<Longrightarrow> bstep s l s'"
proof (cases ev)
  case (EWrite c e)
  assume "fire s ev = Some (l, s')"
  then show ?thesis using EWrite
    by (auto split: prod.splits progress.splits intro: bstep.intros)
next
  case (EResume c buf i)
  assume "fire s ev = Some (l, s')"
  then have "i < length (select_send s c buf)" "l = LWrite buf (fst (select_send s c buf ! i))"
    "s' = snd (select_send s c buf ! i)"
    using EResume by (auto split: if_splits)
  then show ?thesis
    using write_resumes [of "fst (select_send s c buf ! i)" s' s c buf] by simp
next
  case (EWorker w)
  assume "fire s ev = Some (l, s')"
  then show ?thesis using EWorker by (auto split: option.splits intro: bstep.intros)
next
  case (EFlush c)
  assume "fire s ev = Some (l, s')"
  then show ?thesis using EFlush by (auto split: prod.splits intro: bstep.intros)
next
  case (EClose c)
  assume "fire s ev = Some (l, s')"
  then show ?thesis using EClose by (auto split: prod.splits intro: bstep.intros)
next
  case (ECloseResume c i)
  assume "fire s ev = Some (l, s')"
  then have "i < length (select_done s c)" "l = LClosed (fst (select_done s c ! i))"
    "s' = snd (select_done s c ! i)"
    using ECloseResume by (auto split: if_splits)
  then show ?thesis
    using close_resumes [of "fst (select_done s c ! i)" s' s c] by simp
qed

lemma run_cons: "run s1 ls s2 \<Longrightarrow> bstep s l s1 \<Longrightarrow> run s (l # ls) s2"
proof (induction rule: run.induct)
  case (run_nil s1)
  then show ?case using run_snoc [OF run.run_nil, of s l s1] by simp
next
  case (run_snoc s1 ls s2 l' s3)
  then show ?case using run.run_snoc [of s "l # ls" s2 l' s3] by simp
qed

lemma replay_run: "replay s evs = Some (ls, s') \<Longrightarrow> run s ls s'"
proof (induction evs arbitrary: s ls)
  case Nil
  then show ?case by (simp add: run_nil)
next
  case (Cons e es)
  then show ?case
    by (auto split: option.splits prod.splits intro: run_cons fire_bstep)
qed

lemma bstep_stays_closed: "bstep s l s' \<Longrightarrow> bclosed s \<Longrightarrow> bclosed s'"
  by (induction rule: bstep.induct)
     (auto simp: batchSink_Write_def try_send_def select_send_def batchSink_Flush_def call_next_def
        batchSink_Close_def select_done_def worker_step_def Let_def
        split: if_splits option.splits wstate.splits wevent.splits list.splits)




text \<open>
  Claim C5. In every run of a wrapper made by \<open>WithBatch\<close>, whatever the producers, the
  timer and \<open>Close\<close> do and in whatever order, the entries handed to the wrapped sink's
  \<open>Write\<close>, followed by the worker's batch and the queue, are the accepted entries in the
  order of their acceptance. So the wrapped sink always has a prefix of the accepted
  sequence, in order and without gaps; and once the worker has returned its batch is
  empty, so what was accepted and not delivered is what a late \<open>Write\<close> left in the queue.
\<close>

theorem C5_fifo_delivery:
  assumes "run (WithBatch nxt opt0) ls s"
  shows "delivered (next_calls s) @ batch s @ queued (queue s) = accepted ls \<and>
         (worker s = WExited \<longrightarrow> batch s = [])"
proof -
  have "run s0 ls s \<Longrightarrow> pending s = pending s0 @ accepted ls \<and>
          ((worker s0 = WExited \<longrightarrow> batch s0 = []) \<longrightarrow> (worker s = WExited \<longrightarrow> batch s = []))" for s0
  proof (induction rule: run.induct)
    case (run_nil s)
    then show ?case by simp
  next
    case (run_snoc s ls s1 l s2)
    then show ?case using bstep_pending [of s1 l s2] bstep_exit [of s1 l s2] by simp
  qed
  from this [OF assms] show ?thesis
    by (simp add: pending_def WithBatch_def Let_def)
qed

text \<open>
  Claim C5 at work: four entries, a flush by the timer, one by the count, the drain at
  \<open>Close\<close>; the wrapped sink receives them in the order of acceptance.
\<close>

theorem C5_fifo_delivery_witness:
  "map_option fst (replay ex_batch ex_events) =
     Some [LWrite ''a'' None, LWorker Recv, LWorker Tick, LWrite ''b'' None,
           LWorker Recv, LWrite ''c'' None, LWorker Recv, LWrite ''d'' None, LClose,
           LWorker Stop, LWorker Drain, LWorker Drain, LClosed None] \<and>
   run ex_batch (fst (the (replay ex_batch ex_events))) (snd (the (replay ex_batch ex_events))) \<and>
   delivered (next_calls (snd (the (replay ex_batch ex_events)))) = [''a'', ''b'', ''c'', ''d'']"
proof -
  let ?R = "replay ex_batch ex_events"
  have l: "map_option fst ?R =
     Some [LWrite ''a'' None, LWorker Recv, LWorker Tick, LWrite ''b'' None,
           LWorker Recv, LWrite ''c'' None, LWorker Recv, LWrite ''d'' None, LClose,
           LWorker Stop, LWorker Drain, LWorker Drain, LClosed None]"
    by code_simp
  then have "?R = Some (fst (the ?R), snd (the ?R))" by (cases ?R) auto
  then have r: "run (WithBatch ex_next ex_bopt) (fst (the ?R)) (snd (the ?R))"
    unfolding ex_batch_def by (rule replay_run)
  have q: "queue (snd (the ?R)) = []" "batch (snd (the ?R)) = []" by code_simp+
  have a: "accepted (fst (the ?R)) = [''a'', ''b'', ''c'', ''d'']" by code_simp
  from C5_fifo_delivery [OF r] q a l r show ?thesis by (simp add: ex_batch_def)
qed

text \<open>
  Claim C3. \<open>Close\<close> leaves either sink closed, and a closed batch sink stays closed in
  every later step. On a closed rotating sink \<open>Write\<close> and \<open>Flush\<close> with a live context
  return \<open>ErrRotationClosed\<close> and leave the sink and the world, its list of system calls
  included, as they are. On a closed batch sink \<open>Write\<close> and \<open>Flush\<close> return
  \<open>ErrBatchClosed\<close> and leave the wrapper, its queue and the list of calls on the wrapped
  sink included, as it is.
\<close>

theorem C3_closed_sinks_fail_fast:
  "closed (fst (snd (rotatingFileSink_Close s0 w0 c0))) \<and>
   (closed s \<and> ctx_Err c = None \<longrightarrow>
      rotatingFileSink_Write s w c entry = (Some ErrRotationClosed, s, w) \<and>
      rotatingFileSink_Flush s w c = (Some ErrRotationClosed, s, w)) \<and>
   bclosed (snd (batchSink_Close b0 c0)) \<and>
   (bclosed b1 \<and> bstep b1 l b2 \<longrightarrow> bclosed b2) \<and>
   (bclosed b \<longrightarrow>
      batchSink_Write b c entry = (Returns (Some ErrBatchClosed), b) \<and>
      batchSink_Flush b c = (Some ErrBatchClosed, b))"
proof -
  have "bclosed b1 \<and> bstep b1 l b2 \<longrightarrow> bclosed b2"
    using bstep_stays_closed by blast
  then show ?thesis
    by (simp add: rotatingFileSink_Close_def rotatingFileSink_Write_def rotatingFileSink_Flush_def
      batchSink_Close_def batchSink_Write_def batchSink_Flush_def Let_def
      split: option.splits prod.splits)
qed

text \<open>
  Claim C3 at work, on the sink and the wrapper the examples have closed.
\<close>

theorem C3_closed_sinks_fail_fast_witness:
  "closed ex_was_closed \<and> ctx_Err Live = None \<and>
   rotatingFileSink_Write ex_was_closed ex_disk_closed Live ''x''
     = (Some ErrRotationClosed, ex_was_closed, ex_disk_closed) \<and>
   rotatingFileSink_Flush ex_was_closed ex_disk_closed Live
     = (Some ErrRotationClosed, ex_was_closed, ex_disk_closed) \<and>
   bclosed ex_full_closed \<and> bstep ex_full_closed (LWorker Stop) (ex_full_closed\<lparr>worker := WDraining\<rparr>) \<and>
   bclosed (ex_full_closed\<lparr>worker := WDraining\<rparr>) \<and>
   batchSink_Write ex_full_closed Live ''x'' = (Returns (Some ErrBatchClosed), ex_full_closed) \<and>
   batchSink_Flush ex_full_closed Live = (Some ErrBatchClosed, ex_full_closed)"
proof -
  have 1: "closed ex_was_closed" by code_simp
  have 2: "ctx_Err Live = None" by simp
  have 3: "bclosed ex_full_closed" by code_simp
  have "worker_step ex_full_closed Stop = Some (ex_full_closed\<lparr>worker := WDraining\<rparr>)"
    by (simp add: worker_step_def ex_full_closed_def batchSink_Close_def ex_full_def
        batchSink_Write_def try_send_def ex_batch_def WithBatch_def ex_bopt_def Let_def
        BackpressureDrop_def BackpressureBlock_def BackpressureShed_def)
  then have 4: "bstep ex_full_closed (LWorker Stop) (ex_full_closed\<lparr>worker := WDraining\<rparr>)"
    by (rule worker_turn)
  from C3_closed_sinks_fail_fast [where s = ex_was_closed and c = Live and w = ex_disk_closed and entry = "''x''"
      and ?b1.0 = ex_full_closed and l = "LWorker Stop"
      and ?b2.0 = "ex_full_closed\<lparr>worker := WDraining\<rparr>" and b = ex_full_closed]
    1 2 3 4
  show ?thesis by simp
qed

end
